theory Spec2Isabelle
  imports Main "HOL-Library.List_Lexorder" "HOL-Library.Multiset" "HOL-Library.AList"
begin

section \<open>Python strings and values\<close>

text \<open>
  A Python \<open>str\<close> is a sequence of Unicode code points, so it is modelled as a list of
  natural numbers: \<open>len\<close> is \<open>length\<close>, and the order of \<open>nat list\<close> (lexicographic, from
  \<open>List_Lexorder\<close>) is the order Python compares strings by. \<open>lit\<close> turns an ASCII
  literal into such a string.
\<close>

type_synonym pystr = "nat list"

definition lit :: "string \<Rightarrow> pystr" where
  "lit s = map of_char s"

definition NL :: pystr where
  "NL = [10]"

definition QUOTE :: pystr where
  "QUOTE = [39]"

text \<open>The colorama constants the messages are built from (ANSI escape sequences).\<close>

definition Fore_RED :: pystr where
  "Fore_RED = 27 # lit ''[31m''"

definition Fore_GREEN :: pystr where
  "Fore_GREEN = 27 # lit ''[32m''"

definition Fore_YELLOW :: pystr where
  "Fore_YELLOW = 27 # lit ''[33m''"

definition Fore_CYAN :: pystr where
  "Fore_CYAN = 27 # lit ''[36m''"

definition Style_RESET_ALL :: pystr where
  "Style_RESET_ALL = 27 # lit ''[0m''"

text \<open>The four pictographs of the messages: U+2705, U+274C, U+1F4C1, U+1F4C4.\<close>

definition CHECK_MARK :: pystr where
  "CHECK_MARK = [0x2705]"

definition CROSS_MARK :: pystr where
  "CROSS_MARK = [0x274C]"

definition FOLDER :: pystr where
  "FOLDER = [0x1F4C1]"

definition PAGE :: pystr where
  "PAGE = [0x1F4C4]"

text \<open>
  \<open>str.split()\<close> without a separator splits at runs of whitespace and drops empty
  strings; whitespace is what CPython's \<open>Py_UNICODE_ISSPACE\<close> accepts.
\<close>

definition isspace :: "nat \<Rightarrow> bool" where
  "isspace c \<longleftrightarrow>
     (0x09 \<le> c \<and> c \<le> 0x0D) \<or> (0x1C \<le> c \<and> c \<le> 0x20) \<or> c = 0x85 \<or> c = 0xA0 \<or>
     c = 0x1680 \<or> (0x2000 \<le> c \<and> c \<le> 0x200A) \<or> c = 0x2028 \<or> c = 0x2029 \<or>
     c = 0x202F \<or> c = 0x205F \<or> c = 0x3000"

fun split_from :: "pystr \<Rightarrow> pystr \<Rightarrow> pystr list" where
  "split_from cur [] = (if cur = [] then [] else [cur])"
| "split_from cur (c # cs) =
     (if isspace c then (if cur = [] then split_from [] cs else cur # split_from [] cs)
      else split_from (cur @ [c]) cs)"

definition py_split :: "pystr \<Rightarrow> pystr list" where
  "py_split s = split_from [] s"

text \<open>\<open>sep.join(xs)\<close>.\<close>

fun py_join :: "pystr \<Rightarrow> pystr list \<Rightarrow> pystr" where
  "py_join sep [] = []"
| "py_join sep [x] = x"
| "py_join sep (x # y # ys) = x @ sep @ py_join sep (y # ys)"

text \<open>Decimal rendering of a number, as \<open>str\<close> and f-strings print an \<open>int\<close>.\<close>

fun digits :: "nat \<Rightarrow> pystr" where
  "digits n = (if n < 10 then [48 + n] else digits (n div 10) @ [48 + n mod 10])"

declare digits.simps [simp del]

definition str_int :: "int \<Rightarrow> pystr" where
  "str_int i = (if i < 0 then lit ''-'' @ digits (nat (- i)) else digits (nat i))"

text \<open>
  The values a decoded tool argument can have. The code only formats them into
  messages and hands them to library calls, so a value that is neither a string, an
  integer nor a boolean (\<open>None\<close>, a float, a list, a nested object) is kept as the name
  of its type and the text \<open>str\<close> prints for it.
\<close>

datatype pyval = PStr pystr | PInt int | PBool bool | PObj pystr pystr

fun py_str :: "pyval \<Rightarrow> pystr" where
  "py_str (PStr s) = s"
| "py_str (PInt i) = str_int i"
| "py_str (PBool b) = (if b then lit ''True'' else lit ''False'')"
| "py_str (PObj ty shown) = shown"

fun type_name :: "pyval \<Rightarrow> pystr" where
  "type_name (PStr s) = lit ''str''"
| "type_name (PInt i) = lit ''int''"
| "type_name (PBool b) = lit ''bool''"
| "type_name (PObj ty shown) = ty"

text \<open>The result of \<open>json.loads\<close>: an object (the keyword arguments), or another value.\<close>

datatype pyjson = JDict "(pystr \<times> pyval) list" | JVal pyval

text \<open>
  An exception that \<open>except Exception\<close> catches: its class and the text \<open>str(e)\<close>
  gives. The texts of exceptions raised by the interpreter and the library follow
  CPython's; no property below depends on their wording.
\<close>

datatype exn = Exn string pystr

fun str_exn :: "exn \<Rightarrow> pystr" where
  "str_exn (Exn cls msg) = msg"

section \<open>The filesystem\<close>

text \<open>
  A POSIX filesystem without symbolic links and without permissions: a tree whose
  directories list their entries in the order \<open>iterdir\<close> yields them. A file holds the
  text its bytes decode to. A resolved path is the list of names from the root; names
  are taken to be acceptable to the operating system.
\<close>

datatype node = File pystr | Dir "(pystr \<times> node) list"

fun lookup :: "node \<Rightarrow> pystr list \<Rightarrow> node option" where
  "lookup n [] = Some n"
| "lookup (File c) (x # xs) = None"
| "lookup (Dir es) (x # xs) = (case map_of es x of None \<Rightarrow> None | Some n \<Rightarrow> lookup n xs)"

definition is_dir :: "node \<Rightarrow> pystr list \<Rightarrow> bool" where
  "is_dir root p = (case lookup root p of Some (Dir es) \<Rightarrow> True | _ \<Rightarrow> False)"

text \<open>\<open>str(path)\<close> of a resolved path.\<close>

definition path_str :: "pystr list \<Rightarrow> pystr" where
  "path_str p = lit ''/'' @ py_join (lit ''/'') p"

text \<open>
  \<open>(self.current_directory / path).resolve()\<close>: an absolute \<open>path\<close> replaces the
  working directory, empty and \<open>.\<close> segments are dropped, and \<open>..\<close> steps to the parent
  (the root is its own parent). A \<open>path\<close> that is not a string makes \<open>/\<close> raise.
\<close>

fun segments_from :: "pystr \<Rightarrow> pystr \<Rightarrow> pystr list" where
  "segments_from cur [] = [cur]"
| "segments_from cur (c # cs) =
     (if c = 47 then cur # segments_from [] cs else segments_from (cur @ [c]) cs)"

definition resolve_step :: "pystr list \<Rightarrow> pystr \<Rightarrow> pystr list" where
  "resolve_step stack seg =
     (if seg = [] \<or> seg = lit ''.'' then stack
      else if seg = lit ''..'' then butlast stack
      else stack @ [seg])"

definition resolve :: "pystr list \<Rightarrow> pystr \<Rightarrow> pystr list" where
  "resolve cwd path =
     foldl resolve_step (if path \<noteq> [] \<and> hd path = 47 then [] else cwd) (segments_from [] path)"

definition join_resolve :: "pystr list \<Rightarrow> pyval \<Rightarrow> exn + pystr list" where
  "join_resolve cwd path =
     (case path of
        PStr s \<Rightarrow> Inr (resolve cwd s)
      | _ \<Rightarrow> Inl (Exn ''TypeError''
               (lit ''unsupported operand type(s) for /: '' @ QUOTE @ lit ''PosixPath'' @ QUOTE
                @ lit '' and '' @ QUOTE @ type_name path @ QUOTE)))"

text \<open>\<open>Path.mkdir(parents=True, exist_ok=True)\<close>.\<close>

fun chain :: "pystr list \<Rightarrow> node" where
  "chain [] = Dir []"
| "chain (x # xs) = Dir [(x, chain xs)]"

fun mkdir_parents :: "node \<Rightarrow> pystr list \<Rightarrow> exn + node" where
  "mkdir_parents (Dir es) [] = Inr (Dir es)"
| "mkdir_parents (File c) [] = Inl (Exn ''FileExistsError'' (lit ''[Errno 17] File exists''))"
| "mkdir_parents (File c) (x # xs) =
     Inl (Exn ''NotADirectoryError'' (lit ''[Errno 20] Not a directory''))"
| "mkdir_parents (Dir es) (x # xs) =
     (case map_of es x of
        None \<Rightarrow> Inr (Dir (es @ [(x, chain xs)]))
      | Some n \<Rightarrow>
          (case mkdir_parents n xs of
             Inl e \<Rightarrow> Inl e
           | Inr n' \<Rightarrow> Inr (Dir (AList.update x n' es))))"

text \<open>
  Opening a path for writing creates the file or truncates it, and the text written
  becomes its content.
\<close>

fun write_node :: "node \<Rightarrow> pystr list \<Rightarrow> pystr \<Rightarrow> exn + node" where
  "write_node (File old) [] new = Inr (File new)"
| "write_node (Dir es) [] new =
     Inl (Exn ''IsADirectoryError'' (lit ''[Errno 21] Is a directory''))"
| "write_node (File old) (x # xs) new =
     Inl (Exn ''NotADirectoryError'' (lit ''[Errno 20] Not a directory''))"
| "write_node (Dir es) (x # xs) new =
     (case map_of es x of
        None \<Rightarrow>
          (if xs = [] then Inr (Dir (es @ [(x, File new)]))
           else Inl (Exn ''FileNotFoundError'' (lit ''[Errno 2] No such file or directory'')))
      | Some n \<Rightarrow>
          (case write_node n xs new of
             Inl e \<Rightarrow> Inl e
           | Inr n' \<Rightarrow> Inr (Dir (AList.update x n' es))))"

text \<open>
  \<open>Path.write_text(data, encoding='utf-8')\<close>: the data must be a string; the file is
  opened (created or truncated) before the text is encoded, and a lone surrogate does
  not encode, which leaves the file empty.
\<close>

definition encodable :: "pystr \<Rightarrow> bool" where
  "encodable s = list_all (\<lambda>c. c < 0xD800 \<or> 0xDFFF < c) s"

definition write_text :: "node \<Rightarrow> pystr list \<Rightarrow> pyval \<Rightarrow> (exn + unit) \<times> node" where
  "write_text root p data =
     (case data of
        PStr s \<Rightarrow>
          (case write_node root p (if encodable s then s else []) of
             Inl e \<Rightarrow> (Inl e, root)
           | Inr root' \<Rightarrow>
               (if encodable s then (Inr (), root')
                else (Inl (Exn ''UnicodeEncodeError'' (lit ''surrogates not allowed'')), root')))
      | _ \<Rightarrow> (Inl (Exn ''TypeError'' (lit ''data must be str, not '' @ type_name data)), root))"

text \<open>
  \<open>Path.read_text(encoding='utf-8', errors='replace')\<close> reads in text mode with
  universal newlines: \<open>\r\n\<close> and a lone \<open>\r\<close> arrive as \<open>\n\<close>.
\<close>

fun universal_newlines :: "pystr \<Rightarrow> pystr" where
  "universal_newlines [] = []"
| "universal_newlines [c] = (if c = 13 then [10] else [c])"
| "universal_newlines (c # d # cs) =
     (if c = 13 then
        (if d = 10 then 10 # universal_newlines cs else 10 # universal_newlines (d # cs))
      else c # universal_newlines (d # cs))"

text \<open>The error of opening a path that does not exist.\<close>

fun missing :: "node \<Rightarrow> pystr list \<Rightarrow> exn" where
  "missing (File c) (x # xs) = Exn ''NotADirectoryError'' (lit ''[Errno 20] Not a directory'')"
| "missing (Dir es) (x # xs) =
     (case map_of es x of
        None \<Rightarrow> Exn ''FileNotFoundError'' (lit ''[Errno 2] No such file or directory'')
      | Some n \<Rightarrow> missing n xs)"
| "missing n [] = Exn ''FileNotFoundError'' (lit ''[Errno 2] No such file or directory'')"

definition read_text :: "node \<Rightarrow> pystr list \<Rightarrow> exn + pystr" where
  "read_text root p =
     (case lookup root p of
        Some (File c) \<Rightarrow> Inr (universal_newlines c)
      | Some (Dir es) \<Rightarrow> Inl (Exn ''IsADirectoryError'' (lit ''[Errno 21] Is a directory''))
      | None \<Rightarrow> Inl (missing root p))"

definition iterdir :: "node \<Rightarrow> pystr list \<Rightarrow> exn + (pystr \<times> node) list" where
  "iterdir root p =
     (case lookup root p of
        Some (Dir es) \<Rightarrow> Inr es
      | Some (File c) \<Rightarrow> Inl (Exn ''NotADirectoryError'' (lit ''[Errno 20] Not a directory''))
      | None \<Rightarrow> Inl (missing root p))"

section \<open>Conversation, world and external collaborators\<close>

text \<open>
  The message dictionaries of \<open>self.messages\<close>, by role. An assistant message is the
  dump of the model's response: its content (possibly \<open>None\<close>) and its tool calls
  (possibly \<open>None\<close>).
\<close>

record tool_call =
  call_id :: pystr
  func_name :: pystr
  func_arguments :: pystr

record chat_message =
  content :: "pystr option"
  tool_calls :: "tool_call list option"

datatype message =
    System pystr
  | User pystr
  | Assistant chat_message
  | Tool pystr pystr pystr

record completion =
  choices :: "chat_message list"

record completed_process =
  returncode :: int
  stdout :: pystr
  stderr :: pystr

record http_request =
  url :: pystr
  api_key_header :: pystr
  query :: pyval
  num_results :: int
  use_autoprompt :: bool

record search_item =
  item_title :: "pystr option"
  item_url :: "pystr option"
  item_text :: "pystr option"

record http_response =
  status_code :: int
  json_body :: "exn + search_item list option"

text \<open>
  What lies outside the program: the model behind the chat completions endpoint, the
  JSON decoder, the shell, \<open>glob.glob\<close>, the search provider, and \<open>int\<close> applied to
  anything but an integer or a boolean. Each is a parameter, so every theorem holds
  whatever they answer. A shell command may change the filesystem; the model and the
  search provider may answer differently at each call (their first argument counts the
  calls made before).
\<close>

record externals =
  completions_create :: "nat \<Rightarrow> message list \<Rightarrow> exn + completion"
  json_loads :: "pystr \<Rightarrow> exn + pyjson"
  subprocess_run :: "pystr \<Rightarrow> node \<Rightarrow> (exn + completed_process) \<times> node"
  glob_glob :: "pystr \<Rightarrow> node \<Rightarrow> exn + pystr list"
  requests_post :: "nat \<Rightarrow> http_request \<Rightarrow> exn + http_response"
  int_conv :: "pyval \<Rightarrow> exn + int"

text \<open>
  The state outside the agent object: the filesystem, the process environment, and a
  log of every effect that leaves the process: the command lines handed to
  \<open>subprocess.run\<close>, the HTTP requests posted, and the message sequence of every chat
  request, oldest first.
\<close>

record world =
  fs :: node
  environ :: "pystr \<Rightarrow> pystr option"
  spawned :: "pystr list"
  posted :: "http_request list"
  chats :: "message list list"

text \<open>The agent object; the spinner and the printing of debug output are left out.\<close>

record agent =
  model :: pystr
  messages :: "message list"
  current_directory :: "pystr list"
  debug :: bool

section \<open>Tool implementations\<close>

definition read_file :: "agent \<Rightarrow> pyval \<Rightarrow> world \<Rightarrow> pystr \<times> world" where
  "read_file self path w =
     (case join_resolve (current_directory self) path of
        Inl e \<Rightarrow>
          (Fore_RED @ lit ''Error reading file '' @ py_str path @ lit '': '' @ str_exn e
             @ Style_RESET_ALL, w)
      | Inr file_path \<Rightarrow>
          (case read_text (fs w) file_path of
             Inl e \<Rightarrow>
               (Fore_RED @ lit ''Error reading file '' @ py_str path @ lit '': '' @ str_exn e
                  @ Style_RESET_ALL, w)
           | Inr text_read \<Rightarrow>
               (lit ''Content of '' @ py_str path @ lit '':'' @ NL @ text_read, w)))"

definition write_error :: "pyval \<Rightarrow> exn \<Rightarrow> pystr" where
  "write_error path e =
     Fore_RED @ lit ''Error writing to file '' @ py_str path @ lit '': '' @ str_exn e
       @ Style_RESET_ALL"

definition write_success :: "pyval \<Rightarrow> pystr \<Rightarrow> pystr" where
  "write_success path s =
     Fore_GREEN @ CHECK_MARK @ lit '' Successfully created file '' @ py_str path
       @ lit ''. The file now contains '' @ digits (length s) @ lit '' characters.''
       @ Style_RESET_ALL"

definition write_file :: "agent \<Rightarrow> pyval \<Rightarrow> pyval \<Rightarrow> world \<Rightarrow> pystr \<times> world" where
  "write_file self path data w =
     (case join_resolve (current_directory self) path of
        Inl e \<Rightarrow> (write_error path e, w)
      | Inr file_path \<Rightarrow>
          (case mkdir_parents (fs w) (butlast file_path) of
             Inl e \<Rightarrow> (write_error path e, w)
           | Inr fs1 \<Rightarrow>
               (case write_text fs1 file_path data of
                  (Inl e, fs2) \<Rightarrow> (write_error path e, w\<lparr>fs := fs2\<rparr>)
                | (Inr u, fs2) \<Rightarrow>
                    (case data of
                       PStr s \<Rightarrow> (write_success path s, w\<lparr>fs := fs2\<rparr>)
                     | _ \<Rightarrow>
                         (write_error path
                            (Exn ''TypeError''
                               (lit ''object of type '' @ QUOTE @ type_name data @ QUOTE
                                  @ lit '' has no len()'')),
                          w\<lparr>fs := fs2\<rparr>)))))"

definition dir_entry :: "pystr \<Rightarrow> pystr" where
  "dir_entry name = Fore_CYAN @ FOLDER @ lit '' '' @ name @ lit ''/'' @ Style_RESET_ALL"

definition file_entry :: "pystr \<Rightarrow> pystr" where
  "file_entry name = Fore_YELLOW @ PAGE @ lit '' '' @ name @ Style_RESET_ALL"

fun item_is_dir :: "pystr \<times> node \<Rightarrow> bool" where
  "item_is_dir (name, Dir es) = True"
| "item_is_dir (name, File c) = False"

text \<open>The loop \<open>for item in items\<close>, which appends to \<open>dirs\<close> or to \<open>files\<close>.\<close>

fun classify :: "(pystr \<times> node) list \<Rightarrow> pystr list \<Rightarrow> pystr list \<Rightarrow> pystr list \<times> pystr list" where
  "classify [] dirs files = (dirs, files)"
| "classify (item # items) dirs files =
     (if item_is_dir item then classify items (dirs @ [dir_entry (fst item)]) files
      else classify items dirs (files @ [file_entry (fst item)]))"

definition all_items :: "(pystr \<times> node) list \<Rightarrow> pystr list" where
  "all_items items = (case classify items [] [] of (dirs, files) \<Rightarrow> sort dirs @ sort files)"

definition list_files :: "agent \<Rightarrow> pyval \<Rightarrow> world \<Rightarrow> pystr \<times> world" where
  "list_files self path w =
     (case join_resolve (current_directory self) path of
        Inl e \<Rightarrow>
          (Fore_RED @ lit ''Error listing files in '' @ py_str path @ lit '': '' @ str_exn e
             @ Style_RESET_ALL, w)
      | Inr dir_path \<Rightarrow>
          (if \<not> is_dir (fs w) dir_path then
             (Fore_RED @ lit ''Error: '' @ py_str path @ lit '' is not a directory''
                @ Style_RESET_ALL, w)
           else
             (case iterdir (fs w) dir_path of
                Inl e \<Rightarrow>
                  (Fore_RED @ lit ''Error listing files in '' @ py_str path @ lit '': ''
                     @ str_exn e @ Style_RESET_ALL, w)
              | Inr items \<Rightarrow>
                  (lit ''Contents of '' @ path_str dir_path @ lit '':'' @ NL
                     @ py_join NL (all_items items), w))))"

definition glob_call :: "externals \<Rightarrow> pyval \<Rightarrow> node \<Rightarrow> exn + pystr list" where
  "glob_call ext pattern root =
     (case pattern of
        PStr p \<Rightarrow> glob_glob ext p root
      | _ \<Rightarrow> Inl (Exn ''TypeError''
               (lit ''expected str, bytes or os.PathLike object, not '' @ type_name pattern)))"

definition find_files :: "externals \<Rightarrow> agent \<Rightarrow> pyval \<Rightarrow> world \<Rightarrow> pystr \<times> world" where
  "find_files ext self pattern w =
     (case glob_call ext pattern (fs w) of
        Inl e \<Rightarrow>
          (Fore_RED @ lit ''Error finding files with pattern '' @ QUOTE @ py_str pattern @ QUOTE
             @ lit '': '' @ str_exn e @ Style_RESET_ALL, w)
      | Inr files \<Rightarrow>
          (if files \<noteq> [] then
             (Fore_GREEN @ lit ''Found '' @ digits (length files) @ lit '' files matching ''
                @ QUOTE @ py_str pattern @ QUOTE @ lit '':'' @ Style_RESET_ALL @ NL
                @ py_join NL (map (\<lambda>f. Fore_YELLOW @ f @ Style_RESET_ALL) files), w)
           else
             (Fore_YELLOW @ lit ''No files found matching '' @ QUOTE @ py_str pattern @ QUOTE
                @ Style_RESET_ALL, w)))"

definition allowed_commands :: "pystr list" where
  "allowed_commands =
     [lit ''ls'', lit ''dir'', lit ''find'', lit ''grep'', lit ''cat'', lit ''head'',
      lit ''tail'', lit ''wc'', lit ''echo'']"

definition not_allowed :: "pystr \<Rightarrow> pystr" where
  "not_allowed first =
     Fore_RED @ lit ''Error: Command '' @ QUOTE @ first @ QUOTE
       @ lit '' is not allowed for security reasons'' @ Style_RESET_ALL"

definition command_result :: "pystr \<Rightarrow> exn + completed_process \<Rightarrow> pystr" where
  "command_result cmd r =
     (case r of
        Inl e \<Rightarrow>
          Fore_RED @ lit ''Error executing command '' @ QUOTE @ cmd @ QUOTE @ lit '': ''
            @ str_exn e @ Style_RESET_ALL
      | Inr result \<Rightarrow>
          (if returncode result = 0 then
             (if stdout result = [] then
                Fore_GREEN @ CHECK_MARK @ lit '' Command '' @ QUOTE @ cmd @ QUOTE
                  @ lit '' executed successfully with no output'' @ Style_RESET_ALL
              else
                Fore_GREEN @ CHECK_MARK @ lit '' Command output:'' @ Style_RESET_ALL @ NL
                  @ stdout result)
           else
             Fore_RED @ CROSS_MARK @ lit '' Command failed with error:'' @ Style_RESET_ALL @ NL
               @ stderr result))"

definition run_command :: "externals \<Rightarrow> agent \<Rightarrow> pyval \<Rightarrow> world \<Rightarrow> pystr \<times> world" where
  "run_command ext self cmd w =
     (case cmd of
        PStr c \<Rightarrow>
          (let cmd_parts = py_split c in
           if cmd_parts = [] \<or> hd cmd_parts \<notin> set allowed_commands then
             (not_allowed (if cmd_parts \<noteq> [] then hd cmd_parts else []), w)
           else
             (case subprocess_run ext c (fs w) of
                (r, fs') \<Rightarrow> (command_result c r, w\<lparr>fs := fs', spawned := spawned w @ [c]\<rparr>)))
      | _ \<Rightarrow>
          (Fore_RED @ lit ''Error executing command '' @ QUOTE @ py_str cmd @ QUOTE @ lit '': ''
             @ QUOTE @ type_name cmd @ QUOTE @ lit '' object has no attribute '' @ QUOTE
             @ lit ''split'' @ QUOTE @ Style_RESET_ALL, w))"

definition py_int :: "externals \<Rightarrow> pyval \<Rightarrow> exn + int" where
  "py_int ext v =
     (case v of
        PInt i \<Rightarrow> Inr i
      | PBool b \<Rightarrow> Inr (if b then 1 else 0)
      | _ \<Rightarrow> int_conv ext v)"

fun format_results :: "nat \<Rightarrow> search_item list \<Rightarrow> pystr" where
  "format_results i [] = []"
| "format_results i (item # items) =
     (let title = (case item_title item of None \<Rightarrow> lit ''No title'' | Some t \<Rightarrow> t);
          link = (case item_url item of None \<Rightarrow> lit ''No link'' | Some u \<Rightarrow> u);
          body = (case item_text item of None \<Rightarrow> [] | Some t \<Rightarrow> t);
          snippet = (if length body > 150 then take 150 body @ lit ''...'' else body)
      in digits i @ lit ''. '' @ title @ NL
           @ lit ''   URL: '' @ link @ NL
           @ lit ''   Description: '' @ snippet @ NL @ NL
           @ format_results (Suc i) items)"

definition not_configured :: pystr where
  "not_configured = lit ''Error: Exa API key not configured.''"

definition search_error :: "exn \<Rightarrow> pystr" where
  "search_error e = lit ''Error executing web search: '' @ str_exn e"

definition no_results :: "pyval \<Rightarrow> pystr" where
  "no_results q = lit ''No results found for query: '' @ QUOTE @ py_str q @ QUOTE"

definition web_search :: "externals \<Rightarrow> agent \<Rightarrow> pyval \<Rightarrow> pyval \<Rightarrow> world \<Rightarrow> pystr \<times> world" where
  "web_search ext self q n w =
     (case environ w (lit ''EXA_API_KEY'') of
        None \<Rightarrow> (not_configured, w)
      | Some api_key \<Rightarrow>
          (if api_key = [] then (not_configured, w)
           else
             (case py_int ext n of
                Inl e \<Rightarrow> (search_error e, w)
              | Inr wanted \<Rightarrow>
                  (let request =
                         \<lparr>url = lit ''https://api.exa.ai/search'', api_key_header = api_key,
                          query = q, num_results = wanted, use_autoprompt = True\<rparr>;
                       w' = w\<lparr>posted := posted w @ [request]\<rparr>
                   in case requests_post ext (length (posted w)) request of
                        Inl e \<Rightarrow> (search_error e, w')
                      | Inr response \<Rightarrow>
                          (if status_code response \<noteq> 200 then
                             (lit ''Error: Exa API returned status code ''
                                @ str_int (status_code response), w')
                           else
                             (case json_body response of
                                Inl e \<Rightarrow> (search_error e, w')
                              | Inr None \<Rightarrow> (no_results q, w')
                              | Inr (Some items) \<Rightarrow>
                                  (if items = [] then (no_results q, w')
                                   else
                                     (lit ''Search results for '' @ QUOTE @ py_str q @ QUOTE
                                        @ lit '':'' @ NL @ NL @ format_results 1 items, w'))))))))"

section \<open>Tool registry and dispatch\<close>

text \<open>
  \<open>tools[tool_name](**params)\<close>: the decoded arguments must be an object whose keys
  are parameters of the tool and which gives every parameter that has no default;
  otherwise the call raises \<open>TypeError\<close> before the tool runs. The tools themselves
  catch every exception of their bodies and return text.
\<close>

fun bind_params :: "pystr \<Rightarrow> (pystr \<times> pyval option) list \<Rightarrow> (pystr \<times> pyval) list \<Rightarrow> exn + pyval list" where
  "bind_params fname [] kvs = Inr []"
| "bind_params fname ((name, dflt) # ps) kvs =
     (case (case map_of kvs name of Some v \<Rightarrow> Some v | None \<Rightarrow> dflt) of
        None \<Rightarrow>
          Inl (Exn ''TypeError''
                 (lit ''CodingAgent.'' @ fname @ lit ''() missing 1 required positional argument: ''
                    @ QUOTE @ name @ QUOTE))
      | Some v \<Rightarrow>
          (case bind_params fname ps kvs of
             Inl e \<Rightarrow> Inl e
           | Inr vs \<Rightarrow> Inr (v # vs)))"

definition bind_kwargs :: "pystr \<Rightarrow> (pystr \<times> pyval option) list \<Rightarrow> pyjson \<Rightarrow> exn + pyval list" where
  "bind_kwargs fname params args =
     (case args of
        JVal v \<Rightarrow>
          Inl (Exn ''TypeError''
                 (lit ''CodingAgent.'' @ fname @ lit ''() argument after ** must be a mapping, not ''
                    @ type_name v))
      | JDict kvs \<Rightarrow>
          (case filter (\<lambda>k. k \<notin> set (map fst params)) (map fst kvs) of
             k # ks \<Rightarrow>
               Inl (Exn ''TypeError''
                      (lit ''CodingAgent.'' @ fname @ lit ''() got an unexpected keyword argument ''
                         @ QUOTE @ k @ QUOTE))
           | [] \<Rightarrow> bind_params fname params kvs))"

definition call_tool ::
  "pystr \<Rightarrow> (pystr \<times> pyval option) list \<Rightarrow> (pyval list \<Rightarrow> world \<Rightarrow> pystr \<times> world) \<Rightarrow>
   pyjson \<Rightarrow> world \<Rightarrow> (exn + pystr) \<times> world" where
  "call_tool fname params body args w =
     (case bind_kwargs fname params args of
        Inl e \<Rightarrow> (Inl e, w)
      | Inr vs \<Rightarrow> (case body vs w of (r, w') \<Rightarrow> (Inr r, w')))"

definition tools ::
  "externals \<Rightarrow> agent \<Rightarrow> (pystr \<times> (pyjson \<Rightarrow> world \<Rightarrow> (exn + pystr) \<times> world)) list" where
  "tools ext self =
     [(lit ''read_file'',
         call_tool (lit ''read_file'') [(lit ''path'', None)] (\<lambda>vs. read_file self (vs ! 0))),
      (lit ''write_file'',
         call_tool (lit ''write_file'') [(lit ''path'', None), (lit ''content'', None)]
           (\<lambda>vs. write_file self (vs ! 0) (vs ! 1))),
      (lit ''list_files'',
         call_tool (lit ''list_files'') [(lit ''path'', Some (PStr (lit ''.'')))]
           (\<lambda>vs. list_files self (vs ! 0))),
      (lit ''find_files'',
         call_tool (lit ''find_files'') [(lit ''pattern'', None)]
           (\<lambda>vs. find_files ext self (vs ! 0))),
      (lit ''run_command'',
         call_tool (lit ''run_command'') [(lit ''cmd'', None)]
           (\<lambda>vs. run_command ext self (vs ! 0))),
      (lit ''web_search'',
         call_tool (lit ''web_search'') [(lit ''query'', None), (lit ''num_results'', Some (PInt 5))]
           (\<lambda>vs. web_search ext self (vs ! 0) (vs ! 1)))]"

definition execute_error :: "pystr \<Rightarrow> exn \<Rightarrow> pystr" where
  "execute_error tool_name e =
     Fore_RED @ lit ''Error executing '' @ tool_name @ lit '': '' @ str_exn e @ Style_RESET_ALL"

definition not_implemented :: "pystr \<Rightarrow> pystr" where
  "not_implemented tool_name =
     Fore_RED @ lit ''Tool '' @ QUOTE @ tool_name @ QUOTE @ lit '' not implemented''
       @ Style_RESET_ALL"

definition execute_tool ::
  "externals \<Rightarrow> agent \<Rightarrow> pystr \<Rightarrow> pyjson \<Rightarrow> world \<Rightarrow> (exn + pystr) \<times> world" where
  "execute_tool ext self tool_name params w =
     (case map_of (tools ext self) tool_name of
        Some tool \<Rightarrow>
          (case tool params w of
             (Inr r, w') \<Rightarrow> (Inr r, w')
           | (Inl e, w') \<Rightarrow> (Inr (execute_error tool_name e), w'))
      | None \<Rightarrow> (Inr (not_implemented tool_name), w))"

section \<open>The orchestration loop\<close>

definition chat :: "externals \<Rightarrow> agent \<Rightarrow> world \<Rightarrow> (exn + completion) \<times> world" where
  "chat ext self w =
     (completions_create ext (length (chats w)) (messages self),
      w\<lparr>chats := chats w @ [messages self]\<rparr>)"

text \<open>
  The body of \<open>for tool_call in response_message.tool_calls\<close>. An exception of
  \<open>json.loads\<close> or of \<open>execute_tool\<close> is not caught in \<open>process_user_input\<close> and ends
  the loop.
\<close>

fun run_tool_calls ::
  "externals \<Rightarrow> tool_call list \<Rightarrow> agent \<Rightarrow> world \<Rightarrow> (exn + unit) \<times> agent \<times> world" where
  "run_tool_calls ext [] self w = (Inr (), self, w)"
| "run_tool_calls ext (tc # tcs) self w =
     (case json_loads ext (func_arguments tc) of
        Inl e \<Rightarrow> (Inl e, self, w)
      | Inr function_args \<Rightarrow>
          (case execute_tool ext self (func_name tc) function_args w of
             (Inl e, w') \<Rightarrow> (Inl e, self, w')
           | (Inr tool_result, w') \<Rightarrow>
               run_tool_calls ext tcs
                 (self\<lparr>messages := messages self @ [Tool (call_id tc) (func_name tc) tool_result]\<rparr>)
                 w'))"

text \<open>
  The \<open>for _ in range(5)\<close> loop with \<open>n\<close> iterations left; \<open>final_response\<close> is still
  the empty placeholder whenever an iteration starts.
\<close>

definition requested :: "chat_message \<Rightarrow> tool_call list" where
  "requested m = (case tool_calls m of None \<Rightarrow> [] | Some tcs \<Rightarrow> tcs)"

fun rounds :: "externals \<Rightarrow> nat \<Rightarrow> agent \<Rightarrow> world \<Rightarrow> (exn + pystr) \<times> agent \<times> world" where
  "rounds ext 0 self w = (Inr [], self, w)"
| "rounds ext (Suc n) self w =
     (case chat ext self w of
        (Inl e, w1) \<Rightarrow> (Inl e, self, w1)
      | (Inr c, w1) \<Rightarrow>
          (case choices c of
             [] \<Rightarrow> (Inl (Exn ''IndexError'' (lit ''list index out of range'')), self, w1)
           | response_message # others \<Rightarrow>
               (let message_content =
                      (case content response_message of None \<Rightarrow> [] | Some s \<Rightarrow> s);
                    self1 = self\<lparr>messages := messages self @ [Assistant response_message]\<rparr>
                in if requested response_message \<noteq> [] then
                     (case run_tool_calls ext (requested response_message) self1 w1 of
                        (Inl e, self2, w2) \<Rightarrow> (Inl e, self2, w2)
                      | (Inr u, self2, w2) \<Rightarrow> rounds ext n self2 w2)
                   else (Inr message_content, self1, w1))))"

definition process_user_input ::
  "externals \<Rightarrow> agent \<Rightarrow> pystr \<Rightarrow> world \<Rightarrow> (exn + pystr) \<times> agent \<times> world" where
  "process_user_input ext self user_input w =
     rounds ext 5 (self\<lparr>messages := messages self @ [User user_input]\<rparr>) w"

text \<open>The responses of the model among a list of messages, in order.\<close>

fun assistant_turns :: "message list \<Rightarrow> chat_message list" where
  "assistant_turns [] = []"
| "assistant_turns (Assistant m # ms) = m # assistant_turns ms"
| "assistant_turns (other # ms) = assistant_turns ms"

section \<open>Sample worlds and collaborators\<close>

text \<open>
  Concrete inputs at which the properties below are instantiated: a world whose
  environment is empty and whose logs are empty, an agent working in \<open>/work\<close>, and
  collaborators that follow a script: the model answers with the given turns in order
  and the connection fails afterwards, \<open>glob.glob\<close> finds the given paths, every shell
  command succeeds silently. \<open>sample_decode\<close> agrees with \<open>json.loads\<close> on the two
  argument strings the sample turns use: \<open>{}\<close> is the empty object, and \<open>{\<close> is not
  JSON.
\<close>

definition sample_world :: "node \<Rightarrow> world" where
  "sample_world root =
     \<lparr>fs = root, environ = Map.empty, spawned = [], posted = [], chats = []\<rparr>"

definition sample_agent :: agent where
  "sample_agent =
     \<lparr>model = lit ''qwen3:32b'', messages = [], current_directory = [lit ''work''],
      debug = False\<rparr>"

definition empty_work :: node where
  "empty_work = Dir [(lit ''work'', Dir [])]"

definition sample_decode :: "pystr \<Rightarrow> exn + pyjson" where
  "sample_decode s =
     (if s = lit ''{}'' then Inr (JDict [])
      else Inl (Exn ''JSONDecodeError''
                  (lit ''Expecting property name enclosed in double quotes: line 1 column 2 (char 1)'')))"

definition scripted :: "chat_message list \<Rightarrow> pystr list \<Rightarrow> externals" where
  "scripted turns found =
     \<lparr>completions_create =
        (\<lambda>n msgs. if n < length turns then Inr \<lparr>choices = [turns ! n]\<rparr>
                   else Inl (Exn ''APIConnectionError'' (lit ''Connection error.''))),
      json_loads = sample_decode,
      subprocess_run = (\<lambda>cmd root. (Inr \<lparr>returncode = 0, stdout = [], stderr = []\<rparr>, root)),
      glob_glob = (\<lambda>pattern root. Inr found),
      requests_post = (\<lambda>n request. Inl (Exn ''ConnectionError'' (lit ''Connection refused''))),
      int_conv = (\<lambda>v. Inl (Exn ''TypeError'' (lit ''int() argument must be a string or a real number'')))\<rparr>"

text \<open>A turn that carries text and asks for one directory listing.\<close>

definition busy_turn :: chat_message where
  "busy_turn =
     \<lparr>content = Some (lit ''Working on it''),
      tool_calls = Some [\<lparr>call_id = lit ''call_1'', func_name = lit ''list_files'',
                          func_arguments = lit ''{}''\<rparr>]\<rparr>"

text \<open>A turn that asks for two tools; the arguments of the second are not JSON.\<close>

definition broken_turn :: chat_message where
  "broken_turn =
     \<lparr>content = None,
      tool_calls = Some [\<lparr>call_id = lit ''call_1'', func_name = lit ''list_files'',
                          func_arguments = lit ''{}''\<rparr>,
                        \<lparr>call_id = lit ''call_2'', func_name = lit ''read_file'',
                          func_arguments = lit ''{''\<rparr>]\<rparr>"

definition final_turn :: chat_message where
  "final_turn = \<lparr>content = Some (lit ''Done.''), tool_calls = None\<rparr>"

definition busy_script :: externals where
  "busy_script = scripted [busy_turn, busy_turn, busy_turn, busy_turn, busy_turn] []"

definition broken_script :: externals where
  "broken_script = scripted [broken_turn, final_turn] []"

definition unsorted_script :: externals where
  "unsorted_script = scripted [] [lit ''b.txt'', lit ''a.txt'']"




section \<open>Properties of the restricted command tool\<close>

text \<open>
  \<open>py_split\<close> agrees with the reading of \<open>split\<close> as "skip whitespace, take the
  characters up to the next whitespace, go on with the rest".
\<close>

lemma split_from_skip: "split_from [] s = split_from [] (dropWhile isspace s)"
  by (induction s) auto

lemma split_from_token:
  "split_from cur s =
     (if cur @ takeWhile (\<lambda>c. \<not> isspace c) s = []
      then split_from [] (dropWhile (\<lambda>c. \<not> isspace c) s)
      else (cur @ takeWhile (\<lambda>c. \<not> isspace c) s)
             # split_from [] (dropWhile (\<lambda>c. \<not> isspace c) s))"
  by (induction s arbitrary: cur) auto

lemma first_nonspace:
  "takeWhile (\<lambda>c. \<not> isspace c) (dropWhile isspace s) = [] \<Longrightarrow> dropWhile isspace s = []"
proof (cases "dropWhile isspace s")
  case Nil
  then show ?thesis by simp
next
  case (Cons c cs)
  then have "\<not> isspace c"
    using hd_dropWhile[of isspace s] by simp
  moreover assume "takeWhile (\<lambda>c. \<not> isspace c) (dropWhile isspace s) = []"
  ultimately show ?thesis using Cons by simp
qed

lemma py_split_first:
  "py_split s =
     (let r = dropWhile isspace s; t = takeWhile (\<lambda>c. \<not> isspace c) r
      in if t = [] then [] else t # py_split (dropWhile (\<lambda>c. \<not> isspace c) r))"
proof (cases "takeWhile (\<lambda>c. \<not> isspace c) (dropWhile isspace s) = []")
  case True
  then have blank: "dropWhile isspace s = []" by (rule first_nonspace)
  have "split_from [] s = split_from [] (dropWhile isspace s)"
    by (rule split_from_skip)
  also have "\<dots> = split_from [] []" by (simp only: blank)
  finally have "split_from [] s = []" by simp
  with True show ?thesis by (simp add: py_split_def Let_def)
next
  case False
  have "split_from [] s = split_from [] (dropWhile isspace s)"
    by (rule split_from_skip)
  also have "\<dots> = takeWhile (\<lambda>c. \<not> isspace c) (dropWhile isspace s)
                 # split_from [] (dropWhile (\<lambda>c. \<not> isspace c) (dropWhile isspace s))"
    using False by (subst split_from_token) simp
  finally show ?thesis using False by (simp add: py_split_def Let_def)
qed



text \<open>
  C10. Only the first token is checked. When it is an allowed command, the whole
  command line, as given, is handed to the shell (it is what the log of spawned
  command lines receives and what the shell's answer is computed from), whatever
  follows the first token. A command line without any token is answered with the
  denial message and nothing is executed.
\<close>

theorem run_command_checks_first_token_only:
  "(py_split cmd = t # ts \<and> t \<in> set allowed_commands \<longrightarrow>
      run_command ext self (PStr cmd) w =
        (command_result cmd (fst (subprocess_run ext cmd (fs w))),
         w\<lparr>fs := snd (subprocess_run ext cmd (fs w)), spawned := spawned w @ [cmd]\<rparr>)) \<and>
   (py_split cmd = [] \<longrightarrow> run_command ext self (PStr cmd) w = (not_allowed [], w))"
  by (simp add: run_command_def split: prod.splits)

theorem run_command_checks_first_token_only_witness:
  "\<forall>ext self w.
     run_command ext self (PStr (lit ''echo hi; rm -rf /'')) w =
       (command_result (lit ''echo hi; rm -rf /'')
          (fst (subprocess_run ext (lit ''echo hi; rm -rf /'') (fs w))),
        w\<lparr>fs := snd (subprocess_run ext (lit ''echo hi; rm -rf /'') (fs w)),
          spawned := spawned w @ [lit ''echo hi; rm -rf /'']\<rparr>) \<and>
     run_command ext self (PStr (lit ''  '')) w = (not_allowed [], w)"
proof -
  have tokens:
    "py_split (lit ''echo hi; rm -rf /'') = lit ''echo'' # [lit ''hi;'', lit ''rm'', lit ''-rf'', lit ''/'']"
    by (simp add: py_split_def lit_def isspace_def)
  have listed: "lit ''echo'' \<in> set allowed_commands"
    by (simp add: lit_def allowed_commands_def)
  have blank: "py_split (lit ''  '') = []"
    by (simp add: py_split_def lit_def isspace_def)
  show ?thesis
    using run_command_checks_first_token_only[of "lit ''echo hi; rm -rf /''" "lit ''echo''"
        "[lit ''hi;'', lit ''rm'', lit ''-rf'', lit ''/'']"]
      run_command_checks_first_token_only[of "lit ''  ''"] tokens listed blank
    by blast
qed

section \<open>Properties of the web search tool\<close>



section \<open>Properties of dispatch\<close>



section \<open>Properties of the orchestration loop\<close>

text \<open>No tool makes a chat request.\<close>

lemma read_file_chats: "chats (snd (read_file self p w)) = chats w"
  by (simp add: read_file_def split: sum.splits)

lemma write_file_chats: "chats (snd (write_file self p d w)) = chats w"
  by (simp add: write_file_def split: sum.splits prod.splits pyval.splits)

lemma list_files_chats: "chats (snd (list_files self p w)) = chats w"
  by (simp add: list_files_def split: sum.splits)

lemma find_files_chats: "chats (snd (find_files ext self p w)) = chats w"
  by (simp add: find_files_def split: sum.splits)

lemma run_command_chats: "chats (snd (run_command ext self c w)) = chats w"
  by (simp add: run_command_def Let_def split: pyval.splits prod.splits)

lemma web_search_chats: "chats (snd (web_search ext self q n w)) = chats w"
  by (simp add: web_search_def Let_def split: option.splits sum.splits)

lemma call_tool_chats:
  assumes "\<And>vs w. chats (snd (body vs w)) = chats w"
  shows "chats (snd (call_tool fname params body args w)) = chats w"
proof (cases "bind_kwargs fname params args")
  case (Inl e)
  then show ?thesis by (simp add: call_tool_def)
next
  case (Inr vs)
  obtain r w' where run: "body vs w = (r, w')" by (cases "body vs w")
  with assms[of vs w] have "chats w' = chats w" by simp
  with Inr run show ?thesis by (simp add: call_tool_def)
qed

lemma registered_tool_chats:
  assumes "(name, tool) \<in> set (tools ext self)"
  shows "chats (snd (tool args w)) = chats w"
  using assms
  by (auto simp add: tools_def call_tool_chats read_file_chats write_file_chats list_files_chats
      find_files_chats run_command_chats web_search_chats)

lemma execute_tool_chats: "chats (snd (execute_tool ext self name args w)) = chats w"
proof (cases "map_of (tools ext self) name")
  case None
  then show ?thesis by (simp add: execute_tool_def)
next
  case (Some tool)
  then have "(name, tool) \<in> set (tools ext self)" by (rule map_of_SomeD)
  then have "chats (snd (tool args w)) = chats w" by (rule registered_tool_chats)
  with Some show ?thesis
    by (cases "tool args w") (auto simp add: execute_tool_def split: sum.splits)
qed

lemma run_tool_calls_chats: "chats (snd (snd (run_tool_calls ext tcs self w))) = chats w"
proof (induction tcs arbitrary: self w)
  case Nil
  then show ?case by simp
next
  case (Cons tc tcs)
  show ?case
  proof (cases "json_loads ext (func_arguments tc)")
    case (Inl e)
    then show ?thesis by simp
  next
    case (Inr args)
    obtain r w' where ex: "execute_tool ext self (func_name tc) args w = (r, w')"
      by (cases "execute_tool ext self (func_name tc) args w")
    with execute_tool_chats[of ext self "func_name tc" args w] have "chats w' = chats w" by simp
    with Inr ex Cons.IH show ?thesis by (cases r) simp_all
  qed
qed

lemma chat_chats: "chats (snd (chat ext self w)) = chats w @ [messages self]"
  by (simp add: chat_def)

lemma rounds_chats:
  "length (chats (snd (snd (rounds ext n self w)))) \<le> length (chats w) + n"
proof (induction n arbitrary: self w)
  case 0
  then show ?case by simp
next
  case (Suc n)
  obtain r w1 where c: "chat ext self w = (r, w1)" by (cases "chat ext self w")
  with chat_chats[of ext self w] have len: "length (chats w1) = length (chats w) + 1" by simp
  show ?case
  proof (cases r)
    case (Inl e)
    with c len show ?thesis by simp
  next
    case (Inr cmpl)
    show ?thesis
    proof (cases "choices cmpl")
      case Nil
      with c Inr len show ?thesis by simp
    next
      case (Cons m others)
      let ?self1 = "self\<lparr>messages := messages self @ [Assistant m]\<rparr>"
      show ?thesis
      proof (cases "requested m = []")
        case True
        with c Inr Cons len show ?thesis by (simp add: Let_def)
      next
        case False
        obtain r2 self2 w2 where t: "run_tool_calls ext (requested m) ?self1 w1 = (r2, self2, w2)"
          by (cases "run_tool_calls ext (requested m) ?self1 w1")
        with run_tool_calls_chats[of ext "requested m" ?self1 w1] have same: "chats w2 = chats w1"
          by simp
        show ?thesis
        proof (cases r2)
          case (Inl e)
          with c Inr Cons False t same len show ?thesis by (simp add: Let_def)
        next
          case r2: (Inr u)
          have "length (chats (snd (snd (rounds ext n self2 w2)))) \<le> length (chats w2) + n"
            by (rule Suc.IH)
          with c Inr Cons False t same len r2 show ?thesis by (simp add: Let_def)
        qed
      qed
    qed
  qed
qed

text \<open>
  C5. Whatever the model answers and however many tool calls each answer requests,
  one call of \<open>process_user_input\<close> makes at most five chat requests.
\<close>

theorem process_user_input_round_trips:
  "length (chats (snd (snd (process_user_input ext self user_input w)))) \<le> length (chats w) + 5"
  unfolding process_user_input_def by (rule rounds_chats)

text \<open>A sample run in which each of the five turns asks for a directory listing.\<close>

lemma sample_listing:
  assumes "current_directory self = [lit ''work'']" and "fs w = empty_work"
  shows "execute_tool (scripted turns found) self (lit ''list_files'') (JDict []) w
    = (Inr (lit ''Contents of /work:'' @ NL), w)"
  using assms
  by (simp add: execute_tool_def tools_def call_tool_def bind_kwargs_def list_files_def
      join_resolve_def resolve_def resolve_step_def is_dir_def iterdir_def empty_work_def
      all_items_def path_str_def lit_def)



theorem process_user_input_round_trips_witness:
  "length (chats (snd (snd
     (process_user_input busy_script sample_agent (lit ''hi'') (sample_world empty_work))))) \<le> 5"
  using process_user_input_round_trips[of busy_script sample_agent "lit ''hi''" "sample_world empty_work"]
  by (simp add: sample_world_def)

text \<open>The messages of a conversation only grow, and tool calls add no model response.\<close>

lemma assistant_turns_append [simp]:
  "assistant_turns (xs @ ys) = assistant_turns xs @ assistant_turns ys"
  by (induction xs rule: assistant_turns.induct) simp_all








section \<open>Properties of the file tools\<close>










section \<open>Properties of the directory listing\<close>







section \<open>Properties of the file search\<close>

text \<open>
  C8 (as amended). When \<open>glob.glob\<close> returns paths, \<open>find_files\<close> answers with their
  number and the paths in the order \<open>glob.glob\<close> returned them (the code does not sort
  them); when it returns none, the answer is the explicit "No files found" text.
\<close>

theorem find_files_reports_matches:
  assumes "glob_glob ext pattern (fs w) = Inr files"
  shows "find_files ext self (PStr pattern) w =
     (if files \<noteq> [] then
        (Fore_GREEN @ lit ''Found '' @ digits (length files) @ lit '' files matching ''
           @ QUOTE @ pattern @ QUOTE @ lit '':'' @ Style_RESET_ALL @ NL
           @ py_join NL (map (\<lambda>f. Fore_YELLOW @ f @ Style_RESET_ALL) files), w)
      else
        (Fore_YELLOW @ lit ''No files found matching '' @ QUOTE @ pattern @ QUOTE
           @ Style_RESET_ALL, w))"
  using assms by (simp add: find_files_def glob_call_def)

theorem find_files_reports_matches_witness:
  "find_files unsorted_script sample_agent (PStr (lit ''*.txt'')) (sample_world empty_work) =
     (Fore_GREEN @ lit ''Found 2 files matching '' @ QUOTE @ lit ''*.txt'' @ QUOTE @ lit '':''
        @ Style_RESET_ALL @ NL
        @ Fore_YELLOW @ lit ''b.txt'' @ Style_RESET_ALL @ NL
        @ Fore_YELLOW @ lit ''a.txt'' @ Style_RESET_ALL,
      sample_world empty_work) \<and>
   find_files busy_script sample_agent (PStr (lit ''*.txt'')) (sample_world empty_work) =
     (Fore_YELLOW @ lit ''No files found matching '' @ QUOTE @ lit ''*.txt'' @ QUOTE
        @ Style_RESET_ALL, sample_world empty_work)"
proof -
  have two: "glob_glob unsorted_script (lit ''*.txt'') (fs (sample_world empty_work))
      = Inr [lit ''b.txt'', lit ''a.txt'']"
    by (simp add: unsorted_script_def scripted_def)
  have none: "glob_glob busy_script (lit ''*.txt'') (fs (sample_world empty_work)) = Inr []"
    by (simp add: busy_script_def scripted_def)
  have shown: "digits (Suc (Suc 0)) = lit ''2''" by (simp add: digits.simps lit_def)
  from find_files_reports_matches[OF two, of sample_agent]
    find_files_reports_matches[OF none, of sample_agent] shown
  show ?thesis by (simp add: lit_def)
qed

theorem find_files_unsorted_counterexample:
  "find_files unsorted_script sample_agent (PStr (lit ''*.txt'')) (sample_world empty_work) =
     (Fore_GREEN @ lit ''Found 2 files matching '' @ QUOTE @ lit ''*.txt'' @ QUOTE @ lit '':''
        @ Style_RESET_ALL @ NL
        @ Fore_YELLOW @ lit ''b.txt'' @ Style_RESET_ALL @ NL
        @ Fore_YELLOW @ lit ''a.txt'' @ Style_RESET_ALL,
      sample_world empty_work) \<and>
   glob_glob unsorted_script (lit ''*.txt'') (fs (sample_world empty_work))
     = Inr [lit ''b.txt'', lit ''a.txt''] \<and>
   lit ''a.txt'' < lit ''b.txt''"
  by (simp add: find_files_def glob_call_def unsorted_script_def scripted_def digits.simps lit_def)

section \<open>Tool calls and their results\<close>

text \<open>
  When the arguments of every requested call decode, the loop over the calls of a turn
  appends one tool message per call, in the order of the calls, each with the
  identifier and the name of its call and with the text \<open>execute_tool\<close> returned.
\<close>

lemma execute_tool_returns: "\<exists>r w'. execute_tool ext self name args w = (Inr r, w')"
  by (simp add: execute_tool_def split: option.splits prod.splits sum.splits)

lemma run_tool_calls_answers_all:
  assumes "\<forall>tc \<in> set tcs. \<exists>args. json_loads ext (func_arguments tc) = Inr args"
  shows "\<exists>self' w' results.
           run_tool_calls ext tcs self w = (Inr (), self', w') \<and>
           length results = length tcs \<and>
           messages self' = messages self @
             map (\<lambda>(tc, r). Tool (call_id tc) (func_name tc) r) (zip tcs results)"
  using assms
proof (induction tcs arbitrary: self w)
  case Nil
  then show ?case by simp
next
  case (Cons tc tcs)
  from Cons.prems obtain args where d: "json_loads ext (func_arguments tc) = Inr args"
    by auto
  obtain r w1 where ex: "execute_tool ext self (func_name tc) args w = (Inr r, w1)"
    using execute_tool_returns by blast
  let ?self1 = "self\<lparr>messages := messages self @ [Tool (call_id tc) (func_name tc) r]\<rparr>"
  from Cons.prems have "\<forall>tc \<in> set tcs. \<exists>args. json_loads ext (func_arguments tc) = Inr args"
    by simp
  from Cons.IH[OF this, of ?self1 w1] obtain self' w' results where
    run: "run_tool_calls ext tcs ?self1 w1 = (Inr (), self', w')"
    and len: "length results = length tcs"
    and msgs: "messages self' = messages ?self1 @
             map (\<lambda>(tc, r). Tool (call_id tc) (func_name tc) r) (zip tcs results)"
    by blast
  have "run_tool_calls ext (tc # tcs) self w = (Inr (), self', w')"
    using d ex run by simp
  moreover have "length (r # results) = length (tc # tcs)" using len by simp
  moreover have "messages self' = messages self @
      map (\<lambda>(tc, r). Tool (call_id tc) (func_name tc) r) (zip (tc # tcs) (r # results))"
    using msgs by simp
  ultimately show ?case by blast
qed

text \<open>
  A sample turn requests two tools, and the arguments of the second are not JSON. The
  first call is answered, \<open>json.loads\<close> raises on the second, and the exception leaves
  \<open>process_user_input\<close>: the history keeps the response with its two requests and one
  tool message. The next user input sends that history to the model.
\<close>

lemma broken_round:
  "process_user_input broken_script sample_agent (lit ''hi'') (sample_world empty_work) =
     (Inl (Exn ''JSONDecodeError''
             (lit ''Expecting property name enclosed in double quotes: line 1 column 2 (char 1)'')),
      sample_agent\<lparr>messages :=
        [User (lit ''hi''), Assistant broken_turn,
         Tool (lit ''call_1'') (lit ''list_files'') (lit ''Contents of /work:'' @ NL)]\<rparr>,
      (sample_world empty_work)\<lparr>chats := [[User (lit ''hi'')]]\<rparr>)"
proof -
  let ?self0 = "sample_agent\<lparr>messages := [User (lit ''hi'')]\<rparr>"
  let ?w1 = "(sample_world empty_work)\<lparr>chats := [[User (lit ''hi'')]]\<rparr>"
  have answer: "chat broken_script ?self0 (sample_world empty_work) =
      (Inr \<lparr>choices = [broken_turn]\<rparr>, ?w1)"
    by (simp add: chat_def broken_script_def scripted_def sample_world_def)
  have calls: "requested broken_turn =
      [\<lparr>call_id = lit ''call_1'', func_name = lit ''list_files'', func_arguments = lit ''{}''\<rparr>,
       \<lparr>call_id = lit ''call_2'', func_name = lit ''read_file'', func_arguments = lit ''{''\<rparr>]"
    by (simp add: requested_def broken_turn_def)
  have good: "json_loads broken_script (lit ''{}'') = Inr (JDict [])"
    by (simp add: broken_script_def scripted_def sample_decode_def)
  have bad: "json_loads broken_script (lit ''{'') =
      Inl (Exn ''JSONDecodeError''
             (lit ''Expecting property name enclosed in double quotes: line 1 column 2 (char 1)''))"
    by (simp add: broken_script_def scripted_def sample_decode_def lit_def)
  have listing: "execute_tool broken_script
      (sample_agent\<lparr>messages := [User (lit ''hi''), Assistant broken_turn]\<rparr>) (lit ''list_files'')
      (JDict []) ?w1
    = (Inr (lit ''Contents of /work:'' @ NL), ?w1)"
    unfolding broken_script_def
    by (intro sample_listing) (simp_all add: sample_agent_def sample_world_def)
  have fresh: "messages sample_agent = []"
    by (simp add: sample_agent_def)
  show ?thesis
    by (simp add: process_user_input_def eval_nat_numeral fresh answer calls good bad listing
        Let_def)
qed

lemma next_round:
  "process_user_input broken_script
     (sample_agent\<lparr>messages :=
        [User (lit ''hi''), Assistant broken_turn,
         Tool (lit ''call_1'') (lit ''list_files'') (lit ''Contents of /work:'' @ NL)]\<rparr>)
     (lit ''again'')
     ((sample_world empty_work)\<lparr>chats := [[User (lit ''hi'')]]\<rparr>) =
   (Inr (lit ''Done.''),
    sample_agent\<lparr>messages :=
        [User (lit ''hi''), Assistant broken_turn,
         Tool (lit ''call_1'') (lit ''list_files'') (lit ''Contents of /work:'' @ NL),
         User (lit ''again''), Assistant final_turn]\<rparr>,
    (sample_world empty_work)\<lparr>chats :=
       [[User (lit ''hi'')],
        [User (lit ''hi''), Assistant broken_turn,
         Tool (lit ''call_1'') (lit ''list_files'') (lit ''Contents of /work:'' @ NL),
         User (lit ''again'')]]\<rparr>)"
  by (simp add: process_user_input_def eval_nat_numeral chat_def broken_script_def scripted_def
      requested_def final_turn_def Let_def)

text \<open>
  C2. The turn \<open>broken_turn\<close> carries two tool-call requests, \<open>call_1\<close> and \<open>call_2\<close>.
  \<open>process_user_input\<close> raises \<open>JSONDecodeError\<close> after appending the tool message of
  \<open>call_1\<close> only, and the chat request of the next user input carries the response with
  both requests followed by that single tool message: \<open>call_2\<close> is never answered.
\<close>

theorem undecodable_arguments_leave_call_unanswered:
  "process_user_input broken_script sample_agent (lit ''hi'') (sample_world empty_work) =
     (Inl (Exn ''JSONDecodeError''
             (lit ''Expecting property name enclosed in double quotes: line 1 column 2 (char 1)'')),
      sample_agent\<lparr>messages :=
        [User (lit ''hi''), Assistant broken_turn,
         Tool (lit ''call_1'') (lit ''list_files'') (lit ''Contents of /work:'' @ NL)]\<rparr>,
      (sample_world empty_work)\<lparr>chats := [[User (lit ''hi'')]]\<rparr>) \<and>
   map call_id (requested broken_turn) = [lit ''call_1'', lit ''call_2''] \<and>
   chats (snd (snd (process_user_input broken_script
     (sample_agent\<lparr>messages :=
        [User (lit ''hi''), Assistant broken_turn,
         Tool (lit ''call_1'') (lit ''list_files'') (lit ''Contents of /work:'' @ NL)]\<rparr>)
     (lit ''again'')
     ((sample_world empty_work)\<lparr>chats := [[User (lit ''hi'')]]\<rparr>)))) =
     [[User (lit ''hi'')],
      [User (lit ''hi''), Assistant broken_turn,
       Tool (lit ''call_1'') (lit ''list_files'') (lit ''Contents of /work:'' @ NL),
       User (lit ''again'')]]"
proof -
  have ids: "map call_id (requested broken_turn) = [lit ''call_1'', lit ''call_2'']"
    by (simp add: requested_def broken_turn_def)
  show ?thesis by (simp add: broken_round next_round ids)
qed

end
